theory Spec2Isabelle
  imports Complex_Main
begin

section \<open>RigidSolver.hpp: a single rigid body integrator\<close>

text \<open>
  The scalar type \<open>tReal\<close> is read as \<^typ>\<open>real\<close>: every statement below is one of exact
  real arithmetic. Division is HOL's total division, which agrees with the quotient of the
  source wherever the divisor is not zero; a conclusion whose value depends on a quotient
  is stated under the hypothesis that the divisor is not zero. The counter type
  \<open>tIndex\<close> is read as \<^typ>\<open>nat\<close>; no statement below runs the counter far enough for
  a machine width to matter.
\<close>

subsection \<open>Vectors and matrices\<close>

text \<open>
  Modelled from the spec: \<open>Vector3.hpp\<close> is not among the source files. \<open>Vec3f\<close>
  is a triple of scalars with componentwise sum and difference, scaling and division by a
  scalar, and \<open>v[0]\<close>, \<open>v[1]\<close>, \<open>v[2]\<close> reading the components (\<open>vx\<close>, \<open>vy\<close>,
  \<open>vz\<close> here).
\<close>

datatype Vec3f = Vec3f (vx: real) (vy: real) (vz: real)

definition vadd :: "Vec3f \<Rightarrow> Vec3f \<Rightarrow> Vec3f" where
  "vadd a b = Vec3f (vx a + vx b) (vy a + vy b) (vz a + vz b)"

definition vsub :: "Vec3f \<Rightarrow> Vec3f \<Rightarrow> Vec3f" where
  "vsub a b = Vec3f (vx a - vx b) (vy a - vy b) (vz a - vz b)"

definition vscale :: "Vec3f \<Rightarrow> real \<Rightarrow> Vec3f" where
  \<comment> \<open>\<open>v * s\<close>\<close>
  "vscale a s = Vec3f (vx a * s) (vy a * s) (vz a * s)"

definition scalev :: "real \<Rightarrow> Vec3f \<Rightarrow> Vec3f" where
  \<comment> \<open>\<open>s * v\<close>\<close>
  "scalev s a = Vec3f (s * vx a) (s * vy a) (s * vz a)"

definition vdiv :: "Vec3f \<Rightarrow> real \<Rightarrow> Vec3f" where
  \<comment> \<open>\<open>v / s\<close>\<close>
  "vdiv a s = Vec3f (vx a / s) (vy a / s) (vz a / s)"

text \<open>
  Modelled from the spec: \<open>Matrix3x3.hpp\<close> is not among the source files.
  \<open>Mat3f\<close> is a 3\<times>3 matrix built from nine scalars row by row, \<open>m(i,j)\<close> reads row
  \<open>i\<close>, column \<open>j\<close> (\<open>mat_at\<close>), \<open>Mat3f::I()\<close> is the identity, \<open>m * v\<close> the
  product of a matrix and a column vector, and \<open>invert\<close> the matrix inverse
  (\<open>I0inv = I0\<^sup>-\<^sup>1\<close>), written out here with cofactors.
\<close>

datatype Mat3f = Mat3f real real real  real real real  real real real

fun mat_at :: "Mat3f \<Rightarrow> nat \<Rightarrow> nat \<Rightarrow> real" where
  "mat_at (Mat3f a00 a01 a02 a10 a11 a12 a20 a21 a22) i j =
     (if i = 0 then (if j = 0 then a00 else if j = 1 then a01 else a02)
      else if i = 1 then (if j = 0 then a10 else if j = 1 then a11 else a12)
      else (if j = 0 then a20 else if j = 1 then a21 else a22))"

definition mat_I :: Mat3f where
  "mat_I = Mat3f 1 0 0  0 1 0  0 0 1"

fun mat_vec :: "Mat3f \<Rightarrow> Vec3f \<Rightarrow> Vec3f" where
  "mat_vec (Mat3f a00 a01 a02 a10 a11 a12 a20 a21 a22) v =
     Vec3f (a00 * vx v + a01 * vy v + a02 * vz v)
           (a10 * vx v + a11 * vy v + a12 * vz v)
           (a20 * vx v + a21 * vy v + a22 * vz v)"

fun mat_det :: "Mat3f \<Rightarrow> real" where
  "mat_det (Mat3f a00 a01 a02 a10 a11 a12 a20 a21 a22) =
     a00 * (a11 * a22 - a12 * a21) - a01 * (a10 * a22 - a12 * a20)
       + a02 * (a10 * a21 - a11 * a20)"

fun invert :: "Mat3f \<Rightarrow> Mat3f" where
  "invert (Mat3f a00 a01 a02 a10 a11 a12 a20 a21 a22) =
     (let det = mat_det (Mat3f a00 a01 a02 a10 a11 a12 a20 a21 a22) in
      Mat3f ((a11 * a22 - a12 * a21) / det) ((a02 * a21 - a01 * a22) / det)
            ((a01 * a12 - a02 * a11) / det)
            ((a12 * a20 - a10 * a22) / det) ((a00 * a22 - a02 * a20) / det)
            ((a02 * a10 - a00 * a12) / det)
            ((a10 * a21 - a11 * a20) / det) ((a01 * a20 - a00 * a21) / det)
            ((a00 * a11 - a01 * a10) / det))"

text \<open>Transpose and matrix product, to state that a matrix is orthonormal.\<close>

fun mat_transpose :: "Mat3f \<Rightarrow> Mat3f" where
  "mat_transpose (Mat3f a00 a01 a02 a10 a11 a12 a20 a21 a22) =
     Mat3f a00 a10 a20  a01 a11 a21  a02 a12 a22"

fun mat_mul :: "Mat3f \<Rightarrow> Mat3f \<Rightarrow> Mat3f" where
  "mat_mul (Mat3f a00 a01 a02 a10 a11 a12 a20 a21 a22)
           (Mat3f b00 b01 b02 b10 b11 b12 b20 b21 b22) =
     Mat3f (a00 * b00 + a01 * b10 + a02 * b20) (a00 * b01 + a01 * b11 + a02 * b21)
           (a00 * b02 + a01 * b12 + a02 * b22)
           (a10 * b00 + a11 * b10 + a12 * b20) (a10 * b01 + a11 * b11 + a12 * b21)
           (a10 * b02 + a11 * b12 + a12 * b22)
           (a20 * b00 + a21 * b10 + a22 * b20) (a20 * b01 + a21 * b11 + a22 * b21)
           (a20 * b02 + a21 * b12 + a22 * b22)"

text \<open>
  \<open>glm::mat4\<close> built from sixteen scalars takes them column by column: the first four
  are column 0. A value is kept as its four columns, and \<open>mat4_at m c r\<close> is \<open>m[c][r]\<close>.
\<close>

datatype vec4 = vec4 real real real real

datatype mat4 = mat4 vec4 vec4 vec4 vec4

fun vec4_at :: "vec4 \<Rightarrow> nat \<Rightarrow> real" where
  "vec4_at (vec4 a b c d) r = (if r = 0 then a else if r = 1 then b else if r = 2 then c else d)"

fun mat4_at :: "mat4 \<Rightarrow> nat \<Rightarrow> nat \<Rightarrow> real" where
  "mat4_at (mat4 c0 c1 c2 c3) c r =
     vec4_at (if c = 0 then c0 else if c = 1 then c1 else if c = 2 then c2 else c3) r"

definition mat4_of_scalars ::
  "real \<Rightarrow> real \<Rightarrow> real \<Rightarrow> real \<Rightarrow> real \<Rightarrow> real \<Rightarrow> real \<Rightarrow> real \<Rightarrow>
   real \<Rightarrow> real \<Rightarrow> real \<Rightarrow> real \<Rightarrow> real \<Rightarrow> real \<Rightarrow> real \<Rightarrow> real \<Rightarrow> mat4" where
  "mat4_of_scalars x0 y0 z0 w0 x1 y1 z1 w1 x2 y2 z2 w2 x3 y3 z3 w3 =
     mat4 (vec4 x0 y0 z0 w0) (vec4 x1 y1 z1 w1) (vec4 x2 y2 z2 w2) (vec4 x3 y3 z3 w3)"

subsection \<open>Quaternion\<close>

datatype Quaternion = Quaternion (qw: real) (qx: real) (qy: real) (qz: real)

definition qmul :: "Quaternion \<Rightarrow> Quaternion \<Rightarrow> Quaternion" where
  \<comment> \<open>\<open>Quaternion::operator*\<close>\<close>
  "qmul p q = Quaternion
     (qw p * qw q - qx p * qx q - qy p * qy q - qz p * qz q)
     (qw p * qx q + qx p * qw q + qy p * qz q - qz p * qy q)
     (qw p * qy q - qx p * qz q + qy p * qw q + qz p * qx q)
     (qw p * qz q + qx p * qy q - qy p * qx q + qz p * qw q)"

definition qnorm2 :: "Quaternion \<Rightarrow> real" where
  \<comment> \<open>the sum of squares under the root in \<open>normalized\<close>\<close>
  "qnorm2 q = qw q * qw q + qx q * qx q + qy q * qy q + qz q * qz q"

definition qmag :: "Quaternion \<Rightarrow> real" where
  \<comment> \<open>\<open>mag\<close> in \<open>normalized\<close>\<close>
  "qmag q = sqrt (qw q * qw q + qx q * qx q + qy q * qy q + qz q * qz q)"

definition normalized :: "Quaternion \<Rightarrow> Quaternion" where
  "normalized q =
     (let mag = qmag q in Quaternion (qw q / mag) (qx q / mag) (qy q / mag) (qz q / mag))"

definition toMatrix :: "Quaternion \<Rightarrow> Mat3f" where
  "toMatrix q =
     (let xx = qx q * qx q; yy = qy q * qy q; zz = qz q * qz q;
          xy = qx q * qy q; xz = qx q * qz q; yz = qy q * qz q;
          wx = qw q * qx q; wy = qw q * qy q; wz = qw q * qz q
      in Mat3f (1 - 2 * (yy + zz)) (2 * (xy - wz)) (2 * (xz + wy))
               (2 * (xy + wz)) (1 - 2 * (xx + zz)) (2 * (yz - wx))
               (2 * (xz - wy)) (2 * (yz + wx)) (1 - 2 * (xx + yy)))"

text \<open>
  A scalar where a \<open>Quaternion\<close> is expected is converted by the constructor, whose other
  arguments take their defaults: \<open>0.5\<close> becomes \<open>Quaternion(0.5, 0, 0, 0)\<close>.
\<close>

definition quat_of_scalar :: "real \<Rightarrow> Quaternion" where
  "quat_of_scalar s = Quaternion s 0 0 0"

subsection \<open>BodyAttributes and Box\<close>

record BodyAttributes =
  M :: real
  I0 :: Mat3f
  I0inv :: Mat3f
  Iinv :: Mat3f
  X :: Vec3f
  R :: Mat3f
  orientation :: Quaternion
  P :: Vec3f
  L :: Vec3f
  V :: Vec3f
  omega :: Vec3f
  F :: Vec3f
  tau :: Vec3f
  vdata0 :: "Vec3f list"

definition worldMat :: "'a BodyAttributes_scheme \<Rightarrow> mat4" where
  "worldMat b = mat4_of_scalars
     (mat_at (R b) 0 0) (mat_at (R b) 1 0) (mat_at (R b) 2 0) 0
     (mat_at (R b) 0 1) (mat_at (R b) 1 1) (mat_at (R b) 2 1) 0
     (mat_at (R b) 0 2) (mat_at (R b) 1 2) (mat_at (R b) 2 2) 0
     (vx (X b)) (vy (X b)) (vz (X b)) 1"

record Box = BodyAttributes +
  width :: real
  height :: real
  depth :: real

text \<open>
  The constructor of \<open>Box\<close>: the member initialisers of \<open>BodyAttributes()\<close> first, then
  the body of the constructor, in the order of the source.
\<close>

definition Box :: "real \<Rightarrow> real \<Rightarrow> real \<Rightarrow> real \<Rightarrow> Vec3f \<Rightarrow> Vec3f \<Rightarrow> Box" where
  "Box w h d dens v0 omega0 =
     (let mass = dens * w * h * d;
          inertia = Mat3f ((1 / 12) * mass * (h * h + d * d)) 0 0
                          0 ((1 / 12) * mass * (w * w + d * d)) 0
                          0 0 ((1 / 12) * mass * (w * w + h * h));
          inertia_inv = invert inertia
      in \<lparr> M = mass, I0 = inertia, I0inv = inertia_inv, Iinv = inertia_inv,
           X = Vec3f 0 0 0, R = mat_I, orientation = Quaternion 1 0 0 0,
           P = Vec3f 0 0 0, L = Vec3f 0 0 0,
           V = v0, omega = omega0,
           F = Vec3f 0 0 0, tau = Vec3f 0 0 0,
           vdata0 = [Vec3f (- 0.5 * w) (- 0.5 * h) (- 0.5 * d),
                     Vec3f (0.5 * w) (- 0.5 * h) (- 0.5 * d),
                     Vec3f (0.5 * w) (0.5 * h) (- 0.5 * d),
                     Vec3f (- 0.5 * w) (0.5 * h) (- 0.5 * d),
                     Vec3f (- 0.5 * w) (- 0.5 * h) (0.5 * d),
                     Vec3f (0.5 * w) (- 0.5 * h) (0.5 * d),
                     Vec3f (0.5 * w) (0.5 * h) (0.5 * d),
                     Vec3f (- 0.5 * w) (0.5 * h) (0.5 * d)],
           width = w, height = h, depth = d \<rparr>)"

definition Box_default :: Box where
  \<comment> \<open>\<open>Box()\<close>, every argument at its default\<close>
  "Box_default = Box 1 1 1 10 (Vec3f 0 0 0) (Vec3f 0 0 0)"

subsection \<open>RigidSolver\<close>

text \<open>
  The solver holds a pointer to the body and writes through it. The state of the model is
  the solver together with the object it points to: \<open>body = None\<close> is the null pointer,
  \<open>body = Some b\<close> a pointer to an object whose present value is \<open>b\<close>. The pointer has
  type \<open>BodyAttributes*\<close> and may point to a \<open>Box\<close>, so the body is a record scheme.
  The members \<open>_g\<close>, \<open>_step\<close> and \<open>_sim_t\<close> are \<open>solver_g\<close>, \<open>solver_step\<close> and
  \<open>solver_sim_t\<close>. The line printed by \<open>step\<close> is left out.
\<close>

record 'a RigidSolver =
  body :: "'a BodyAttributes_scheme option"
  solver_g :: Vec3f
  solver_step :: nat
  solver_sim_t :: real

datatype fault = NullPointer | IndexOutOfRange

definition RigidSolver :: "'a BodyAttributes_scheme option \<Rightarrow> Vec3f \<Rightarrow> 'a RigidSolver" where
  "RigidSolver body0 g = \<lparr> body = body0, solver_g = g, solver_step = 0, solver_sim_t = 0 \<rparr>"

definition g_default :: Vec3f where
  "g_default = Vec3f 0 (- 0.98) 0"

definition init :: "'a BodyAttributes_scheme option \<Rightarrow> 'b RigidSolver \<Rightarrow> 'a RigidSolver" where
  "init body0 s = \<lparr> body = body0, solver_g = solver_g s, solver_step = 0, solver_sim_t = 0 \<rparr>"

definition instantForce :: Vec3f where
  "instantForce = Vec3f 0.15 0.25 0.03"

definition computeForceAndTorque :: "'a RigidSolver \<Rightarrow> fault + 'a RigidSolver" where
  "computeForceAndTorque s =
     (case body s of
        None \<Rightarrow> Inl NullPointer
      | Some b \<Rightarrow>
          (let b1 = b\<lparr>F := scalev (M b) (solver_g s)\<rparr> in
           if solver_step s = 1 then
             (let b2 = b1\<lparr>F := vadd (F b1) instantForce\<rparr> in
              case vdata0 b2 of
                [] \<Rightarrow> Inl IndexOutOfRange
              | v0 # _ \<Rightarrow>
                  (let r = vsub v0 (X b2) in
                   Inr (s\<lparr>body := Some (b2\<lparr>tau := Vec3f
                     (vy r * vz instantForce - vz r * vy instantForce)
                     (vz r * vx instantForce - vx r * vz instantForce)
                     (vx r * vy instantForce - vy r * vx instantForce)\<rparr>)\<rparr>)))
           else Inr (s\<lparr>body := Some b1\<rparr>)))"

text \<open>
  The body of \<open>step\<close> after the call of \<open>computeForceAndTorque\<close>, cut along its
  commented blocks (linear momentum, angular momentum, orientation) so that statements
  can name the state between them.
\<close>

definition linear_update :: "real \<Rightarrow> 'a BodyAttributes_scheme \<Rightarrow> 'a BodyAttributes_scheme" where
  "linear_update dt b =
     (let b1 = b\<lparr>P := vadd (P b) (vscale (F b) dt)\<rparr>;
          b2 = b1\<lparr>V := vdiv (P b1) (M b1)\<rparr>
      in b2\<lparr>X := vadd (X b2) (vscale (V b2) dt)\<rparr>)"

definition angular_update :: "real \<Rightarrow> 'a BodyAttributes_scheme \<Rightarrow> 'a BodyAttributes_scheme" where
  "angular_update dt b =
     (let b1 = b\<lparr>L := vadd (L b) (vscale (tau b) dt)\<rparr>
      in b1\<lparr>omega := mat_vec (Iinv b1) (L b1)\<rparr>)"

definition orientation_sum :: "real \<Rightarrow> 'a BodyAttributes_scheme \<Rightarrow> Quaternion" where
  \<comment> \<open>the quaternion that \<open>step\<close> hands to \<open>normalized\<close>\<close>
  "orientation_sum dt b =
     (let dq0 = Quaternion 0 (vx (omega b)) (vy (omega b)) (vz (omega b));
          dq = qmul (qmul dq0 (orientation b)) (quat_of_scalar 0.5)
      in Quaternion (qw (orientation b) + qw dq * dt)
                    (qx (orientation b) + qx dq * dt)
                    (qy (orientation b) + qy dq * dt)
                    (qz (orientation b) + qz dq * dt))"

definition orientation_update :: "real \<Rightarrow> 'a BodyAttributes_scheme \<Rightarrow> 'a BodyAttributes_scheme" where
  "orientation_update dt b =
     (let b1 = b\<lparr>orientation := normalized (orientation_sum dt b)\<rparr>
      in b1\<lparr>R := toMatrix (orientation b1)\<rparr>)"

definition step :: "real \<Rightarrow> 'a RigidSolver \<Rightarrow> fault + 'a RigidSolver" where
  "step dt s =
     (case computeForceAndTorque s of
        Inl e \<Rightarrow> Inl e
      | Inr s1 \<Rightarrow>
          (case body s1 of
             None \<Rightarrow> Inl NullPointer
           | Some b \<Rightarrow>
               Inr (s1\<lparr>body := Some (orientation_update dt (angular_update dt (linear_update dt b))),
                       solver_step := solver_step s1 + 1,
                       solver_sim_t := solver_sim_t s1 + dt\<rparr>)))"

text \<open>A caller's sequence of \<open>step\<close> calls, one for each time step of the list.\<close>

fun steps :: "real list \<Rightarrow> 'a RigidSolver \<Rightarrow> fault + 'a RigidSolver" where
  "steps [] s = Inr s"
| "steps (dt # dts) s = (case step dt s of Inl e \<Rightarrow> Inl e | Inr s1 \<Rightarrow> steps dts s1)"

subsection \<open>Notions used by the statements\<close>

text \<open>The cross product, which \<open>computeForceAndTorque\<close> writes out by components.\<close>

definition cross :: "Vec3f \<Rightarrow> Vec3f \<Rightarrow> Vec3f" where
  "cross a b = Vec3f (vy a * vz b - vz a * vy b) (vz a * vx b - vx a * vz b)
                     (vx a * vy b - vy a * vx b)"

text \<open>What a caller can read once a call has returned: the body and the step counter.\<close>

definition body_after :: "fault + 'a RigidSolver \<Rightarrow> 'a BodyAttributes_scheme option" where
  "body_after r = (case r of Inl e \<Rightarrow> None | Inr s \<Rightarrow> body s)"

definition counter_after :: "fault + 'a RigidSolver \<Rightarrow> nat option" where
  "counter_after r = (case r of Inl e \<Rightarrow> None | Inr s \<Rightarrow> Some (solver_step s))"

section \<open>Properties\<close>

subsection \<open>Quaternions\<close>

lemma toMatrix_transpose_left:
  assumes "qnorm2 q = 1"
  shows "mat_mul (mat_transpose (toMatrix q)) (toMatrix q) = mat_I"
proof (cases q)
  case (Quaternion w x y z)
  with assms have u: "w * w + x * x + y * y + z * z = 1" by (simp add: qnorm2_def)
  show ?thesis
    unfolding Quaternion toMatrix_def Let_def mat_I_def
    apply (simp only: Quaternion.sel mat_transpose.simps mat_mul.simps Mat3f.inject)
    apply (intro conjI)
    using u apply algebra+
    done
qed

lemma toMatrix_transpose_right:
  assumes "qnorm2 q = 1"
  shows "mat_mul (toMatrix q) (mat_transpose (toMatrix q)) = mat_I"
proof (cases q)
  case (Quaternion w x y z)
  with assms have u: "w * w + x * x + y * y + z * z = 1" by (simp add: qnorm2_def)
  show ?thesis
    unfolding Quaternion toMatrix_def Let_def mat_I_def
    apply (simp only: Quaternion.sel mat_transpose.simps mat_mul.simps Mat3f.inject)
    apply (intro conjI)
    using u apply algebra+
    done
qed

lemma normalized_unit:
  assumes "qmag q \<noteq> 0"
  shows "qnorm2 (normalized q) = 1"
proof -
  let ?n = "qw q * qw q + qx q * qx q + qy q * qy q + qz q * qz q"
  have nn: "0 \<le> ?n" by simp
  have m2: "qmag q * qmag q = ?n" unfolding qmag_def using nn by simp
  have "qnorm2 (normalized q) = ?n / (qmag q * qmag q)"
    by (simp add: qnorm2_def normalized_def Let_def add_divide_distrib)
  also have "\<dots> = (qmag q * qmag q) / (qmag q * qmag q)" by (simp only: m2)
  also have "\<dots> = 1" using assms by simp
  finally show ?thesis .
qed

lemma normalized_of_unit:
  assumes "qnorm2 q = 1"
  shows "normalized q = q"
  using assms by (cases q) (simp add: normalized_def qmag_def qnorm2_def Let_def)

text \<open>
  C10. For every quaternion with \<open>w\<^sup>2 + x\<^sup>2 + y\<^sup>2 + z\<^sup>2 = 1\<close> the matrix of \<open>toMatrix\<close>
  is orthonormal: its transpose times the matrix is the identity (and so is the matrix
  times its transpose, whichever way the nine scalars are laid out). The quaternion
  \<open>(1, 0, 0, 0)\<close> converts to the identity matrix.
\<close>

theorem toMatrix_orthonormal:
  "(qnorm2 q = 1 \<longrightarrow>
      mat_mul (mat_transpose (toMatrix q)) (toMatrix q) = mat_I \<and>
      mat_mul (toMatrix q) (mat_transpose (toMatrix q)) = mat_I) \<and>
   toMatrix (Quaternion 1 0 0 0) = mat_I"
proof (intro conjI impI)
  show "toMatrix (Quaternion 1 0 0 0) = mat_I"
    by (simp add: toMatrix_def mat_I_def)
qed (rule toMatrix_transpose_left, assumption, rule toMatrix_transpose_right, assumption)

theorem toMatrix_orthonormal_witness:
  "qnorm2 (Quaternion (1/2) (1/2) (1/2) (1/2)) = 1 \<and>
   mat_mul (mat_transpose (toMatrix (Quaternion (1/2) (1/2) (1/2) (1/2))))
           (toMatrix (Quaternion (1/2) (1/2) (1/2) (1/2))) = mat_I \<and>
   toMatrix (Quaternion (1/2) (1/2) (1/2) (1/2)) = Mat3f 0 0 1  1 0 0  0 1 0"
proof -
  have u: "qnorm2 (Quaternion (1/2) (1/2) (1/2) (1/2)) = 1"
    by (simp add: qnorm2_def)
  have m: "toMatrix (Quaternion (1/2) (1/2) (1/2) (1/2)) = Mat3f 0 0 1  1 0 0  0 1 0"
    by (simp add: toMatrix_def)
  from u m toMatrix_orthonormal [of "Quaternion (1/2) (1/2) (1/2) (1/2)"]
  show ?thesis by blast
qed

subsection \<open>The box and the world transform\<close>

lemma Box_default_fields:
  "M Box_default = 10" "X Box_default = Vec3f 0 0 0" "P Box_default = Vec3f 0 0 0"
  "L Box_default = Vec3f 0 0 0" "tau Box_default = Vec3f 0 0 0"
  "orientation Box_default = Quaternion 1 0 0 0"
  "vdata0 Box_default =
     [Vec3f (- (1/2)) (- (1/2)) (- (1/2)), Vec3f (1/2) (- (1/2)) (- (1/2)),
      Vec3f (1/2) (1/2) (- (1/2)), Vec3f (- (1/2)) (1/2) (- (1/2)),
      Vec3f (- (1/2)) (- (1/2)) (1/2), Vec3f (1/2) (- (1/2)) (1/2),
      Vec3f (1/2) (1/2) (1/2), Vec3f (- (1/2)) (1/2) (1/2)]"
  by (simp_all add: Box_default_def Box_def Let_def)

lemma Box_default_Iinv: "Iinv Box_default = Mat3f (3/5) 0 0  0 (3/5) 0  0 0 (3/5)"
  by (simp add: Box_default_def Box_def Let_def)

lemma fresh_solver_fields:
  "body (RigidSolver b0 g) = b0" "solver_g (RigidSolver b0 g) = g"
  "solver_step (RigidSolver b0 g) = 0" "solver_sim_t (RigidSolver b0 g) = 0"
  "body (init b0 s) = b0" "solver_g (init b0 s) = solver_g s"
  "solver_step (init b0 s) = 0" "solver_sim_t (init b0 s) = 0"
  by (simp_all add: RigidSolver_def init_def)

text \<open>
  C8. The constructor of \<open>Box\<close> gives \<open>M = dens \<cdot> w \<cdot> h \<cdot> d\<close>, a diagonal \<open>I0\<close>
  with entries \<open>(1/12) \<cdot> M \<cdot> (h\<^sup>2 + d\<^sup>2)\<close>, \<open>(1/12) \<cdot> M \<cdot> (w\<^sup>2 + d\<^sup>2)\<close>,
  \<open>(1/12) \<cdot> M \<cdot> (w\<^sup>2 + h\<^sup>2)\<close>, \<open>V = v0\<close>, \<open>omega = omega0\<close>, and \<open>P\<close> and \<open>L\<close>
  zero whatever \<open>v0\<close> and \<open>omega0\<close> are; so, for a box of mass other than zero,
  \<open>V \<cdot> M = P\<close> holds exactly when \<open>v0\<close> is zero.
\<close>

theorem Box_constructor:
  "M (Box w h d dens v0 omega0) = dens * w * h * d \<and>
   I0 (Box w h d dens v0 omega0) =
     Mat3f ((1 / 12) * M (Box w h d dens v0 omega0) * (h * h + d * d)) 0 0
           0 ((1 / 12) * M (Box w h d dens v0 omega0) * (w * w + d * d)) 0
           0 0 ((1 / 12) * M (Box w h d dens v0 omega0) * (w * w + h * h)) \<and>
   V (Box w h d dens v0 omega0) = v0 \<and>
   omega (Box w h d dens v0 omega0) = omega0 \<and>
   P (Box w h d dens v0 omega0) = Vec3f 0 0 0 \<and>
   L (Box w h d dens v0 omega0) = Vec3f 0 0 0 \<and>
   (M (Box w h d dens v0 omega0) \<noteq> 0 \<longrightarrow>
      (vscale (V (Box w h d dens v0 omega0)) (M (Box w h d dens v0 omega0)) =
         P (Box w h d dens v0 omega0)) = (v0 = Vec3f 0 0 0))"
  by (cases v0) (simp add: Box_def Let_def vscale_def)

theorem Box_constructor_witness:
  "M (Box 1 2 3 10 (Vec3f 1 0 0) (Vec3f 0 0 1)) = 60 \<and>
   I0 (Box 1 2 3 10 (Vec3f 1 0 0) (Vec3f 0 0 1)) = Mat3f 65 0 0  0 50 0  0 0 25 \<and>
   V (Box 1 2 3 10 (Vec3f 1 0 0) (Vec3f 0 0 1)) = Vec3f 1 0 0 \<and>
   P (Box 1 2 3 10 (Vec3f 1 0 0) (Vec3f 0 0 1)) = Vec3f 0 0 0 \<and>
   vscale (V (Box 1 2 3 10 (Vec3f 1 0 0) (Vec3f 0 0 1)))
          (M (Box 1 2 3 10 (Vec3f 1 0 0) (Vec3f 0 0 1))) \<noteq>
     P (Box 1 2 3 10 (Vec3f 1 0 0) (Vec3f 0 0 1))"
  using Box_constructor [of 1 2 3 10 "Vec3f 1 0 0" "Vec3f 0 0 1"] by (simp add: vscale_def)

text \<open>
  C9. \<open>worldMat\<close> is a function of the body alone and returns the 4\<times>4 matrix whose
  column \<open>c < 3\<close> holds column \<open>c\<close> of \<open>R\<close> followed by 0, and whose last column is
  \<open>(X[0], X[1], X[2], 1)\<close>.
\<close>

theorem worldMat_layout:
  "mat4_at (worldMat b) 0 0 = mat_at (R b) 0 0 \<and>
   mat4_at (worldMat b) 0 1 = mat_at (R b) 1 0 \<and>
   mat4_at (worldMat b) 0 2 = mat_at (R b) 2 0 \<and>
   mat4_at (worldMat b) 0 3 = 0 \<and>
   mat4_at (worldMat b) 1 0 = mat_at (R b) 0 1 \<and>
   mat4_at (worldMat b) 1 1 = mat_at (R b) 1 1 \<and>
   mat4_at (worldMat b) 1 2 = mat_at (R b) 2 1 \<and>
   mat4_at (worldMat b) 1 3 = 0 \<and>
   mat4_at (worldMat b) 2 0 = mat_at (R b) 0 2 \<and>
   mat4_at (worldMat b) 2 1 = mat_at (R b) 1 2 \<and>
   mat4_at (worldMat b) 2 2 = mat_at (R b) 2 2 \<and>
   mat4_at (worldMat b) 2 3 = 0 \<and>
   mat4_at (worldMat b) 3 0 = vx (X b) \<and>
   mat4_at (worldMat b) 3 1 = vy (X b) \<and>
   mat4_at (worldMat b) 3 2 = vz (X b) \<and>
   mat4_at (worldMat b) 3 3 = 1"
  by (simp add: worldMat_def mat4_of_scalars_def)

subsection \<open>One call of step\<close>

lemma cft_other:
  "body s = Some b \<Longrightarrow> solver_step s \<noteq> 1 \<Longrightarrow>
   computeForceAndTorque s = Inr (s\<lparr>body := Some (b\<lparr>F := scalev (M b) (solver_g s)\<rparr>)\<rparr>)"
  by (simp add: computeForceAndTorque_def Let_def)

lemma cft_one:
  "body s = Some b \<Longrightarrow> solver_step s = 1 \<Longrightarrow> vdata0 b = v0 # vs \<Longrightarrow>
   computeForceAndTorque s =
     Inr (s\<lparr>body := Some (b\<lparr>F := vadd (scalev (M b) (solver_g s)) instantForce,
                             tau := cross (vsub v0 (X b)) instantForce\<rparr>)\<rparr>)"
  by (simp add: computeForceAndTorque_def Let_def cross_def)

lemma step_after_cft:
  "computeForceAndTorque s = Inr s1 \<Longrightarrow> body s1 = Some b1 \<Longrightarrow>
   step dt s = Inr (s1\<lparr>body := Some (orientation_update dt (angular_update dt (linear_update dt b1))),
                      solver_step := solver_step s1 + 1,
                      solver_sim_t := solver_sim_t s1 + dt\<rparr>)"
  by (simp add: step_def)

lemma linear_update_fields:
  "P (linear_update dt b) = vadd (P b) (vscale (F b) dt)"
  "V (linear_update dt b) = vdiv (vadd (P b) (vscale (F b) dt)) (M b)"
  "X (linear_update dt b) = vadd (X b) (vscale (vdiv (vadd (P b) (vscale (F b) dt)) (M b)) dt)"
  "M (linear_update dt b) = M b" "I0 (linear_update dt b) = I0 b"
  "I0inv (linear_update dt b) = I0inv b" "Iinv (linear_update dt b) = Iinv b"
  "R (linear_update dt b) = R b" "orientation (linear_update dt b) = orientation b"
  "L (linear_update dt b) = L b" "omega (linear_update dt b) = omega b"
  "F (linear_update dt b) = F b" "tau (linear_update dt b) = tau b"
  "vdata0 (linear_update dt b) = vdata0 b"
  by (simp_all add: linear_update_def Let_def)

lemma angular_update_fields:
  "L (angular_update dt b) = vadd (L b) (vscale (tau b) dt)"
  "omega (angular_update dt b) = mat_vec (Iinv b) (vadd (L b) (vscale (tau b) dt))"
  "M (angular_update dt b) = M b" "I0 (angular_update dt b) = I0 b"
  "I0inv (angular_update dt b) = I0inv b" "Iinv (angular_update dt b) = Iinv b"
  "X (angular_update dt b) = X b"
  "R (angular_update dt b) = R b" "orientation (angular_update dt b) = orientation b"
  "P (angular_update dt b) = P b" "V (angular_update dt b) = V b"
  "F (angular_update dt b) = F b" "tau (angular_update dt b) = tau b"
  "vdata0 (angular_update dt b) = vdata0 b"
  by (simp_all add: angular_update_def Let_def)

lemma orientation_update_fields:
  "orientation (orientation_update dt b) = normalized (orientation_sum dt b)"
  "R (orientation_update dt b) = toMatrix (normalized (orientation_sum dt b))"
  "M (orientation_update dt b) = M b" "I0 (orientation_update dt b) = I0 b"
  "I0inv (orientation_update dt b) = I0inv b" "Iinv (orientation_update dt b) = Iinv b"
  "X (orientation_update dt b) = X b"
  "L (orientation_update dt b) = L b" "omega (orientation_update dt b) = omega b"
  "P (orientation_update dt b) = P b" "V (orientation_update dt b) = V b"
  "F (orientation_update dt b) = F b" "tau (orientation_update dt b) = tau b"
  "vdata0 (orientation_update dt b) = vdata0 b"
  by (simp_all add: orientation_update_def Let_def)

lemmas update_fields = linear_update_fields angular_update_fields orientation_update_fields

text \<open>
  Force and torque accumulation returns on a bound solver, unless the impulse branch reads
  \<open>vdata0[0]\<close> of an empty list; it writes \<open>F\<close>, on the impulse branch \<open>tau\<close>, and
  nothing else.
\<close>

lemma cft_result:
  assumes "body s = Some b" "solver_step s = 1 \<longrightarrow> vdata0 b \<noteq> []"
  shows "\<exists>b1. computeForceAndTorque s = Inr (s\<lparr>body := Some b1\<rparr>) \<and>
           M b1 = M b \<and> I0 b1 = I0 b \<and> I0inv b1 = I0inv b \<and> Iinv b1 = Iinv b \<and>
           X b1 = X b \<and> R b1 = R b \<and> orientation b1 = orientation b \<and> P b1 = P b \<and>
           L b1 = L b \<and> V b1 = V b \<and> omega b1 = omega b \<and> vdata0 b1 = vdata0 b \<and>
           F b1 = (if solver_step s = 1 then vadd (scalev (M b) (solver_g s)) instantForce
                   else scalev (M b) (solver_g s)) \<and>
           tau b1 = (if solver_step s = 1 then cross (vsub (hd (vdata0 b)) (X b)) instantForce
                     else tau b)"
proof (cases "solver_step s = 1")
  case True
  with assms obtain v0 vs where "vdata0 b = v0 # vs" by (cases "vdata0 b") auto
  with True assms(1) show ?thesis
    by (intro exI [of _ "b\<lparr>F := vadd (scalev (M b) (solver_g s)) instantForce,
                            tau := cross (vsub v0 (X b)) instantForce\<rparr>"])
       (simp add: cft_one)
next
  case False
  with assms(1) show ?thesis
    by (intro exI [of _ "b\<lparr>F := scalev (M b) (solver_g s)\<rparr>"]) (simp add: cft_other)
qed

lemma step_result:
  assumes "body s = Some b" "solver_step s = 1 \<longrightarrow> vdata0 b \<noteq> []"
  shows "\<exists>b1. computeForceAndTorque s = Inr (s\<lparr>body := Some b1\<rparr>) \<and>
           step dt s = Inr (s\<lparr>body := Some (orientation_update dt (angular_update dt (linear_update dt b1))),
                              solver_step := solver_step s + 1,
                              solver_sim_t := solver_sim_t s + dt\<rparr>) \<and>
           M b1 = M b \<and> I0 b1 = I0 b \<and> I0inv b1 = I0inv b \<and> Iinv b1 = Iinv b \<and>
           X b1 = X b \<and> R b1 = R b \<and> orientation b1 = orientation b \<and> P b1 = P b \<and>
           L b1 = L b \<and> V b1 = V b \<and> omega b1 = omega b \<and> vdata0 b1 = vdata0 b \<and>
           F b1 = (if solver_step s = 1 then vadd (scalev (M b) (solver_g s)) instantForce
                   else scalev (M b) (solver_g s)) \<and>
           tau b1 = (if solver_step s = 1 then cross (vsub (hd (vdata0 b)) (X b)) instantForce
                     else tau b)"
proof -
  from cft_result [OF assms] obtain b1 where
    c: "computeForceAndTorque s = Inr (s\<lparr>body := Some b1\<rparr>)" and
    f: "M b1 = M b \<and> I0 b1 = I0 b \<and> I0inv b1 = I0inv b \<and> Iinv b1 = Iinv b \<and>
           X b1 = X b \<and> R b1 = R b \<and> orientation b1 = orientation b \<and> P b1 = P b \<and>
           L b1 = L b \<and> V b1 = V b \<and> omega b1 = omega b \<and> vdata0 b1 = vdata0 b \<and>
           F b1 = (if solver_step s = 1 then vadd (scalev (M b) (solver_g s)) instantForce
                   else scalev (M b) (solver_g s)) \<and>
           tau b1 = (if solver_step s = 1 then cross (vsub (hd (vdata0 b)) (X b)) instantForce
                     else tau b)"
    by blast
  have "step dt s = Inr (s\<lparr>body := Some (orientation_update dt (angular_update dt (linear_update dt b1))),
                              solver_step := solver_step s + 1,
                              solver_sim_t := solver_sim_t s + dt\<rparr>)"
    using step_after_cft [OF c, of b1 dt] by simp
  with c f show ?thesis by blast
qed

lemma orientation_sum_cong:
  "omega c = omega c' \<Longrightarrow> orientation c = orientation c' \<Longrightarrow>
   orientation_sum dt c = orientation_sum dt c'"
  by (simp add: orientation_sum_def)

text \<open>The post-state of a call of \<open>step\<close>, field by field, from the pre-state.\<close>

lemma step_post:
  assumes "body s = Some b" "solver_step s = 1 \<longrightarrow> vdata0 b \<noteq> []"
  shows "\<exists>s' b'. step dt s = Inr s' \<and> body s' = Some b' \<and>
           solver_step s' = solver_step s + 1 \<and> solver_g s' = solver_g s \<and>
           solver_sim_t s' = solver_sim_t s + dt \<and>
           M b' = M b \<and> I0 b' = I0 b \<and> I0inv b' = I0inv b \<and> Iinv b' = Iinv b \<and>
           vdata0 b' = vdata0 b \<and>
           F b' = (if solver_step s = 1 then vadd (scalev (M b) (solver_g s)) instantForce
                   else scalev (M b) (solver_g s)) \<and>
           tau b' = (if solver_step s = 1 then cross (vsub (hd (vdata0 b)) (X b)) instantForce
                     else tau b) \<and>
           P b' = vadd (P b) (vscale (F b') dt) \<and>
           V b' = vdiv (P b') (M b) \<and>
           X b' = vadd (X b) (vscale (V b') dt) \<and>
           L b' = vadd (L b) (vscale (tau b') dt) \<and>
           omega b' = mat_vec (Iinv b) (L b') \<and>
           orientation b' = normalized (orientation_sum dt (b\<lparr>omega := omega b'\<rparr>)) \<and>
           R b' = toMatrix (orientation b')"
proof -
  from step_result [OF assms, of dt] obtain b1 where
    st: "step dt s = Inr (s\<lparr>body := Some (orientation_update dt (angular_update dt (linear_update dt b1))),
                              solver_step := solver_step s + 1,
                              solver_sim_t := solver_sim_t s + dt\<rparr>)"
    and f: "M b1 = M b" "I0 b1 = I0 b" "I0inv b1 = I0inv b" "Iinv b1 = Iinv b"
           "X b1 = X b" "R b1 = R b" "orientation b1 = orientation b" "P b1 = P b"
           "L b1 = L b" "V b1 = V b" "omega b1 = omega b" "vdata0 b1 = vdata0 b"
           "F b1 = (if solver_step s = 1 then vadd (scalev (M b) (solver_g s)) instantForce
                   else scalev (M b) (solver_g s))"
           "tau b1 = (if solver_step s = 1 then cross (vsub (hd (vdata0 b)) (X b)) instantForce
                     else tau b)"
    by blast
  let ?b' = "orientation_update dt (angular_update dt (linear_update dt b1))"
  have o: "orientation_sum dt (angular_update dt (linear_update dt b1)) =
           orientation_sum dt (b\<lparr>omega := omega ?b'\<rparr>)"
    by (rule orientation_sum_cong) (simp_all add: update_fields f)
  have "orientation ?b' = normalized (orientation_sum dt (b\<lparr>omega := omega ?b'\<rparr>))"
    by (simp only: orientation_update_fields o)
  moreover have "R ?b' = toMatrix (orientation ?b')"
    by (simp add: orientation_update_fields)
  moreover have "M ?b' = M b" "I0 ?b' = I0 b" "I0inv ?b' = I0inv b" "Iinv ?b' = Iinv b"
    "vdata0 ?b' = vdata0 b"
    "F ?b' = (if solver_step s = 1 then vadd (scalev (M b) (solver_g s)) instantForce
                   else scalev (M b) (solver_g s))"
    "tau ?b' = (if solver_step s = 1 then cross (vsub (hd (vdata0 b)) (X b)) instantForce
                     else tau b)"
    by (simp_all add: update_fields f)
  moreover have "P ?b' = vadd (P b) (vscale (F ?b') dt)" "V ?b' = vdiv (P ?b') (M b)"
    "X ?b' = vadd (X b) (vscale (V ?b') dt)" "L ?b' = vadd (L b) (vscale (tau ?b') dt)"
    "omega ?b' = mat_vec (Iinv b) (L ?b')"
    by (simp_all add: update_fields f)
  ultimately show ?thesis using st
    by (intro exI [of _ "s\<lparr>body := Some ?b', solver_step := solver_step s + 1,
                              solver_sim_t := solver_sim_t s + dt\<rparr>"] exI [of _ ?b'])
       (simp del: One_nat_def)
qed

lemma step_fault:
  assumes "body s = Some b" "solver_step s = 1" "vdata0 b = []"
  shows "step dt s = Inl IndexOutOfRange"
  using assms by (simp add: step_def computeForceAndTorque_def Let_def)

lemma step_frame:
  assumes "body s = Some b" "step dt s = Inr s'"
  shows "\<exists>b'. body s' = Some b' \<and> M b' = M b \<and> I0 b' = I0 b \<and> I0inv b' = I0inv b \<and>
           Iinv b' = Iinv b \<and> vdata0 b' = vdata0 b"
proof (cases "solver_step s = 1 \<and> vdata0 b = []")
  case True
  with assms show ?thesis by (simp add: step_fault)
next
  case False
  then have "solver_step s = 1 \<longrightarrow> vdata0 b \<noteq> []" by blast
  from step_post [OF assms(1) this, of dt] assms(2) show ?thesis by auto
qed

subsection \<open>The state after a call\<close>

lemma vdiv_vscale: "m \<noteq> 0 \<Longrightarrow> vscale (vdiv v m) m = v"
  by (cases v) (simp add: vscale_def vdiv_def)

text \<open>
  C3. After every call of \<open>step\<close> on a bound body with \<open>M \<noteq> 0\<close>, the derived
  velocities are those of the momenta just updated: \<open>V \<cdot> M = P\<close> and
  \<open>omega = Iinv \<cdot> L\<close>. The call returns (its only fault on a bound body is the read of
  \<open>vdata0[0]\<close> from an empty list on the impulse branch).
\<close>

theorem step_velocities_derived:
  assumes "body s = Some b" and "M b \<noteq> 0" and "solver_step s = 1 \<longrightarrow> vdata0 b \<noteq> []"
  shows "\<exists>s' b'. step dt s = Inr s' \<and> body s' = Some b' \<and>
           vscale (V b') (M b') = P b' \<and> omega b' = mat_vec (Iinv b') (L b')"
proof -
  from step_result [OF assms(1,3), of dt] obtain b1 where
    st: "step dt s = Inr (s\<lparr>body := Some (orientation_update dt (angular_update dt (linear_update dt b1))),
                              solver_step := solver_step s + 1,
                              solver_sim_t := solver_sim_t s + dt\<rparr>)"
    and m: "M b1 = M b"
    by blast
  let ?b' = "orientation_update dt (angular_update dt (linear_update dt b1))"
  have "vscale (V ?b') (M ?b') = P ?b'"
    using assms(2) m by (simp add: update_fields vdiv_vscale)
  moreover have "omega ?b' = mat_vec (Iinv ?b') (L ?b')"
    by (simp add: update_fields)
  ultimately show ?thesis using st by simp
qed

theorem step_velocities_derived_witness:
  "body ((RigidSolver (Some Box_default) g_default)\<lparr>solver_step := 1\<rparr>) = Some Box_default \<and>
   M Box_default \<noteq> 0 \<and>
   solver_step ((RigidSolver (Some Box_default) g_default)\<lparr>solver_step := 1\<rparr>) = 1 \<and>
   vdata0 Box_default \<noteq> [] \<and>
   (\<exists>s' b'. step (1/100) ((RigidSolver (Some Box_default) g_default)\<lparr>solver_step := 1\<rparr>) = Inr s' \<and>
      body s' = Some b' \<and> vscale (V b') (M b') = P b' \<and>
      omega b' = mat_vec (Iinv b') (L b'))"
proof -
  let ?s = "(RigidSolver (Some Box_default) g_default)\<lparr>solver_step := 1\<rparr>"
  have h1: "body ?s = Some Box_default" by (simp add: fresh_solver_fields)
  have h2: "M Box_default \<noteq> 0" by (simp add: Box_default_fields)
  have c: "solver_step ?s = 1" by simp
  have v: "vdata0 Box_default \<noteq> []" by (simp add: Box_default_fields)
  from v have h3: "solver_step ?s = 1 \<longrightarrow> vdata0 Box_default \<noteq> []" by blast
  from step_velocities_derived [OF h1 h2 h3, of "1/100"] h1 h2 c v show ?thesis by blast
qed

text \<open>
  C4. After every call of \<open>step\<close> in which the quaternion handed to \<open>normalized\<close> has
  a magnitude other than zero, the orientation of the body has unit magnitude
  (\<open>w\<^sup>2 + x\<^sup>2 + y\<^sup>2 + z\<^sup>2 = 1\<close>) and \<open>R\<close> is \<open>toMatrix\<close> of that orientation.
\<close>

theorem step_orientation_unit:
  assumes "computeForceAndTorque s = Inr s1" and "body s1 = Some b1"
    and "qmag (orientation_sum dt (angular_update dt (linear_update dt b1))) \<noteq> 0"
  shows "\<exists>s' b'. step dt s = Inr s' \<and> body s' = Some b' \<and>
           qnorm2 (orientation b') = 1 \<and> R b' = toMatrix (orientation b')"
proof -
  let ?b' = "orientation_update dt (angular_update dt (linear_update dt b1))"
  have "qnorm2 (orientation ?b') = 1"
    using assms(3) by (simp add: orientation_update_fields normalized_unit)
  moreover have "R ?b' = toMatrix (orientation ?b')"
    by (simp add: orientation_update_fields)
  ultimately show ?thesis using step_after_cft [OF assms(1,2), of dt] by simp
qed

theorem step_orientation_unit_witness:
  "computeForceAndTorque (RigidSolver (Some (Box_default\<lparr>L := Vec3f 1 0 0\<rparr>)) g_default) =
     Inr ((RigidSolver (Some (Box_default\<lparr>L := Vec3f 1 0 0\<rparr>)) g_default)
            \<lparr>body := Some (Box_default\<lparr>L := Vec3f 1 0 0, F := scalev (M Box_default) g_default\<rparr>)\<rparr>) \<and>
   orientation_sum (1/10) (angular_update (1/10) (linear_update (1/10)
           (Box_default\<lparr>L := Vec3f 1 0 0, F := scalev (M Box_default) g_default\<rparr>))) =
     Quaternion 1 (3/100) 0 0 \<and>
   qmag (Quaternion 1 (3/100) 0 0) \<noteq> 0 \<and>
   (\<exists>s' b'. step (1/10) (RigidSolver (Some (Box_default\<lparr>L := Vec3f 1 0 0\<rparr>)) g_default) = Inr s' \<and>
      body s' = Some b' \<and> qnorm2 (orientation b') = 1 \<and> R b' = toMatrix (orientation b'))"
proof -
  let ?b = "Box_default\<lparr>L := Vec3f 1 0 0\<rparr>"
  let ?s = "RigidSolver (Some ?b) g_default"
  let ?b1 = "Box_default\<lparr>L := Vec3f 1 0 0, F := scalev (M Box_default) g_default\<rparr>"
  have h1: "computeForceAndTorque ?s = Inr (?s\<lparr>body := Some ?b1\<rparr>)"
    using cft_other [of ?s ?b] by (simp add: fresh_solver_fields)
  have h2: "body (?s\<lparr>body := Some ?b1\<rparr>) = Some ?b1" by simp
  have q: "orientation_sum (1/10) (angular_update (1/10) (linear_update (1/10) ?b1)) =
      Quaternion 1 (3/100) 0 0"
    by (simp add: orientation_sum_def update_fields Box_default_fields Box_default_Iinv qmul_def
          quat_of_scalar_def vadd_def vscale_def Let_def)
  have m: "qmag (Quaternion 1 (3/100) 0 0) \<noteq> 0"
    by (simp add: qmag_def)
  have h3: "qmag (orientation_sum (1/10) (angular_update (1/10) (linear_update (1/10) ?b1))) \<noteq> 0"
    unfolding q by (rule m)
  from step_orientation_unit [OF h1 h2 h3] h1 q m show ?thesis by blast
qed

text \<open>
  C6. The linear update of \<open>step\<close>: the new \<open>P\<close> is the old \<open>P\<close> plus \<open>F \<cdot> dt\<close>,
  with \<open>F\<close> the force just accumulated; the new \<open>V\<close> is the new \<open>P\<close> divided by
  \<open>M\<close>; the new \<open>X\<close> is the old \<open>X\<close> plus the new \<open>V\<close> times \<open>dt\<close>, that is
  \<open>X + ((P + F \<cdot> dt) / M) \<cdot> dt\<close>. The quotient is read for \<open>M \<noteq> 0\<close>.
\<close>

theorem step_linear_update:
  assumes "body s = Some b" and "solver_step s = 1 \<longrightarrow> vdata0 b \<noteq> []"
  shows "\<exists>s' b'. step dt s = Inr s' \<and> body s' = Some b' \<and>
           F b' = (if solver_step s = 1 then vadd (scalev (M b) (solver_g s)) instantForce
                   else scalev (M b) (solver_g s)) \<and>
           P b' = vadd (P b) (vscale (F b') dt) \<and>
           (M b \<noteq> 0 \<longrightarrow>
              V b' = vdiv (P b') (M b) \<and>
              X b' = vadd (X b) (vscale (V b') dt) \<and>
              X b' = vadd (X b) (vscale (vdiv (vadd (P b) (vscale (F b') dt)) (M b)) dt))"
proof -
  from step_post [OF assms, of dt] obtain s' b' where
    "step dt s = Inr s'" "body s' = Some b'"
    "F b' = (if solver_step s = 1 then vadd (scalev (M b) (solver_g s)) instantForce
             else scalev (M b) (solver_g s))"
    "P b' = vadd (P b) (vscale (F b') dt)" "V b' = vdiv (P b') (M b)"
    "X b' = vadd (X b) (vscale (V b') dt)"
    by blast
  then show ?thesis by (intro exI [of _ s'] exI [of _ b']) simp
qed

theorem step_linear_update_witness:
  "body ((RigidSolver (Some Box_default) g_default)\<lparr>solver_step := 1\<rparr>) = Some Box_default \<and>
   solver_step ((RigidSolver (Some Box_default) g_default)\<lparr>solver_step := 1\<rparr>) = 1 \<and>
   vdata0 Box_default \<noteq> [] \<and> M Box_default \<noteq> 0 \<and>
   (\<exists>s' b'. step (1/100) ((RigidSolver (Some Box_default) g_default)\<lparr>solver_step := 1\<rparr>) = Inr s' \<and>
      body s' = Some b' \<and> F b' = Vec3f (15/100) (- (955/100)) (3/100) \<and>
      P b' = Vec3f (15/10000) (- (955/10000)) (3/10000) \<and>
      V b' = Vec3f (15/100000) (- (955/100000)) (3/100000) \<and>
      X b' = Vec3f (15/10000000) (- (955/10000000)) (3/10000000))"
proof -
  let ?s = "(RigidSolver (Some Box_default) g_default)\<lparr>solver_step := 1\<rparr>"
  have h1: "body ?s = Some Box_default" by (simp add: fresh_solver_fields)
  have c: "solver_step ?s = 1" by simp
  have n: "vdata0 Box_default \<noteq> []" by (simp add: Box_default_fields)
  from n have h2: "solver_step ?s = 1 \<longrightarrow> vdata0 Box_default \<noteq> []" by blast
  have h3: "M Box_default \<noteq> 0" by (simp add: Box_default_fields)
  from step_linear_update [OF h1 h2, of "1/100"] obtain s' b' where
    r: "step (1/100) ?s = Inr s'" "body s' = Some b'"
    and f: "F b' = (if solver_step ?s = 1 then vadd (scalev (M Box_default) (solver_g ?s)) instantForce
                   else scalev (M Box_default) (solver_g ?s))"
    and p: "P b' = vadd (P Box_default) (vscale (F b') (1/100))"
    and v: "M Box_default \<noteq> 0 \<longrightarrow>
              V b' = vdiv (P b') (M Box_default) \<and>
              X b' = vadd (X Box_default) (vscale (V b') (1/100))"
    by blast
  have f': "F b' = Vec3f (15/100) (- (955/100)) (3/100)"
    using f by (simp add: fresh_solver_fields Box_default_fields g_default_def scalev_def
        vadd_def instantForce_def)
  have p': "P b' = Vec3f (15/10000) (- (955/10000)) (3/10000)"
    using p f' by (simp add: Box_default_fields vadd_def vscale_def)
  have v': "V b' = Vec3f (15/100000) (- (955/100000)) (3/100000)"
    using v h3 p' by (simp add: Box_default_fields vdiv_def)
  have x': "X b' = Vec3f (15/10000000) (- (955/10000000)) (3/10000000)"
    using v h3 v' by (simp add: Box_default_fields vadd_def vscale_def)
  from h1 c n h3 r f' p' v' x' show ?thesis by blast
qed

subsection \<open>What step leaves alone\<close>

lemma steps_frame:
  "body s = Some b \<Longrightarrow> steps dts s = Inr s' \<Longrightarrow>
   \<exists>b'. body s' = Some b' \<and> M b' = M b \<and> I0 b' = I0 b \<and> I0inv b' = I0inv b \<and>
           Iinv b' = Iinv b \<and> vdata0 b' = vdata0 b"
proof (induction dts arbitrary: s b)
  case Nil
  then show ?case by simp
next
  case (Cons dt dts)
  from Cons.prems(2) obtain s1 where s1: "step dt s = Inr s1" and r: "steps dts s1 = Inr s'"
    by (auto split: sum.splits)
  from step_frame [OF Cons.prems(1) s1] obtain b1 where
    b1: "body s1 = Some b1" and
    f1: "M b1 = M b \<and> I0 b1 = I0 b \<and> I0inv b1 = I0inv b \<and> Iinv b1 = Iinv b \<and>
         vdata0 b1 = vdata0 b"
    by blast
  from Cons.IH [OF b1 r] f1 show ?case by auto
qed

lemma steps_return:
  "body s = Some b \<Longrightarrow> vdata0 b \<noteq> [] \<Longrightarrow> \<exists>s'. steps dts s = Inr s'"
proof (induction dts arbitrary: s b)
  case Nil
  then show ?case by simp
next
  case (Cons dt dts)
  from Cons.prems have "solver_step s = 1 \<longrightarrow> vdata0 b \<noteq> []" by simp
  from step_post [OF Cons.prems(1) this, of dt] obtain s1 b1 where
    s1: "step dt s = Inr s1" and b1: "body s1 = Some b1" and v: "vdata0 b1 = vdata0 b"
    by blast
  from Cons.IH [OF b1] v Cons.prems(2) obtain s' where "steps dts s1 = Inr s'" by auto
  with s1 show ?case by simp
qed

text \<open>
  C5. The constructor of \<open>Box\<close> sets \<open>Iinv\<close> to \<open>I0inv\<close>. A call of \<open>step\<close>, and so
  any sequence of calls, leaves \<open>M\<close>, \<open>I0\<close>, \<open>I0inv\<close>, \<open>Iinv\<close> and \<open>vdata0\<close> as
  they were: \<open>Iinv\<close> is never recomputed from \<open>R\<close>. On a solver bound to a fresh box
  every sequence of calls returns, and \<open>Iinv\<close> is still the \<open>I0inv\<close> of the constructor.
\<close>

theorem Iinv_fixed_by_step:
  "Iinv (Box w h d dens v0 omega0) = I0inv (Box w h d dens v0 omega0) \<and>
   (body s = Some b \<and> steps dts s = Inr s' \<longrightarrow>
      (\<exists>b'. body s' = Some b' \<and> M b' = M b \<and> I0 b' = I0 b \<and> I0inv b' = I0inv b \<and>
         Iinv b' = Iinv b \<and> vdata0 b' = vdata0 b)) \<and>
   (\<exists>t b'. steps dts (RigidSolver (Some (Box w h d dens v0 omega0)) g) = Inr t \<and>
      body t = Some b' \<and> Iinv b' = I0inv b' \<and>
      I0inv b' = I0inv (Box w h d dens v0 omega0))"
proof (intro conjI impI)
  show c: "Iinv (Box w h d dens v0 omega0) = I0inv (Box w h d dens v0 omega0)"
    by (simp add: Box_def Let_def)
  show "\<exists>b'. body s' = Some b' \<and> M b' = M b \<and> I0 b' = I0 b \<and> I0inv b' = I0inv b \<and>
         Iinv b' = Iinv b \<and> vdata0 b' = vdata0 b"
    if "body s = Some b \<and> steps dts s = Inr s'"
    using that steps_frame [of s b dts s'] by blast
  let ?s = "RigidSolver (Some (Box w h d dens v0 omega0)) g"
  have b: "body ?s = Some (Box w h d dens v0 omega0)" by (simp add: fresh_solver_fields)
  have v: "vdata0 (Box w h d dens v0 omega0) \<noteq> []" by (simp add: Box_def Let_def)
  from steps_return [OF b v, of dts] obtain t where t: "steps dts ?s = Inr t" by blast
  from steps_frame [OF b t] c t
  show "\<exists>t b'. steps dts ?s = Inr t \<and> body t = Some b' \<and> Iinv b' = I0inv b' \<and>
      I0inv b' = I0inv (Box w h d dens v0 omega0)"
    by auto
qed

theorem Iinv_fixed_by_step_witness:
  "\<exists>t. steps [1/100, 1/100, 1/100] (RigidSolver (Some Box_default) g_default) = Inr t \<and>
     (\<exists>b'. body t = Some b' \<and> M b' = 10 \<and> I0 b' = I0 Box_default \<and>
        I0inv b' = I0inv Box_default \<and> Iinv b' = Iinv Box_default \<and>
        vdata0 b' = vdata0 Box_default)"
proof -
  let ?s = "RigidSolver (Some Box_default) g_default"
  let ?dts = "[1/100, 1/100, 1/100] :: real list"
  have th: "\<And>s b s'. body s = Some b \<and> steps ?dts s = Inr s' \<longrightarrow>
      (\<exists>b'. body s' = Some b' \<and> M b' = M b \<and> I0 b' = I0 b \<and> I0inv b' = I0inv b \<and>
         Iinv b' = Iinv b \<and> vdata0 b' = vdata0 b)"
    using Iinv_fixed_by_step [of 1 1 1 10 "Vec3f 0 0 0" "Vec3f 0 0 0" _ _ ?dts] by blast
  from Iinv_fixed_by_step [of 1 1 1 10 "Vec3f 0 0 0" "Vec3f 0 0 0" ?s Box_default ?dts _ g_default]
  obtain t where t: "steps ?dts ?s = Inr t" unfolding Box_default_def by blast
  have b: "body ?s = Some Box_default" by (simp add: fresh_solver_fields)
  from th [of ?s Box_default t] b t show ?thesis by (simp add: Box_default_fields)
qed

lemma mat_vec_zero: "mat_vec m (Vec3f 0 0 0) = Vec3f 0 0 0"
  by (cases m) simp

lemma orientation_sum_at_rest:
  "omega c = Vec3f 0 0 0 \<Longrightarrow> orientation_sum dt c = orientation c"
  by (cases "orientation c") (simp add: orientation_sum_def qmul_def quat_of_scalar_def Let_def)

text \<open>
  C7. A body with \<open>P\<close>, \<open>L\<close> and \<open>tau\<close> zero and a unit orientation, under zero
  gravity and on a call that does not take the impulse branch, keeps its orientation,
  \<open>P\<close> and \<open>L\<close> through \<open>step\<close>, for every \<open>dt\<close>, and also its position \<open>X\<close>:
  the position is advanced by \<open>(P / M) \<cdot> dt\<close>, which is read for \<open>M \<noteq> 0\<close>.
\<close>

theorem zero_force_stasis:
  assumes "body s = Some b" and "solver_step s \<noteq> 1"
    and "P b = Vec3f 0 0 0" and "L b = Vec3f 0 0 0" and "tau b = Vec3f 0 0 0"
    and "qnorm2 (orientation b) = 1" and "solver_g s = Vec3f 0 0 0"
  shows "\<exists>s' b'. step dt s = Inr s' \<and> body s' = Some b' \<and>
           orientation b' = orientation b \<and> P b' = P b \<and> L b' = L b \<and>
           (M b \<noteq> 0 \<longrightarrow> X b' = X b)"
proof -
  from assms(2) have "solver_step s = 1 \<longrightarrow> vdata0 b \<noteq> []" by simp
  from step_post [OF assms(1) this, of dt] assms(2) obtain s' b' where
    r: "step dt s = Inr s'" "body s' = Some b'"
    and f: "F b' = scalev (M b) (solver_g s)" "tau b' = tau b"
      "P b' = vadd (P b) (vscale (F b') dt)" "V b' = vdiv (P b') (M b)"
      "X b' = vadd (X b) (vscale (V b') dt)" "L b' = vadd (L b) (vscale (tau b') dt)"
      "omega b' = mat_vec (Iinv b) (L b')"
      "orientation b' = normalized (orientation_sum dt (b\<lparr>omega := omega b'\<rparr>))"
    by auto
  have p: "P b' = P b" using f assms by (simp add: vadd_def vscale_def scalev_def)
  have l: "L b' = L b" using f assms by (simp add: vadd_def vscale_def)
  have w: "omega b' = Vec3f 0 0 0" using f l assms by (simp add: mat_vec_zero)
  have o: "orientation b' = orientation b"
    using f w assms(6) by (simp add: orientation_sum_at_rest normalized_of_unit)
  have x: "X b' = X b"
    using f p assms(3) by (cases "X b") (simp add: vadd_def vscale_def vdiv_def)
  from r p l o x show ?thesis by blast
qed

theorem zero_force_stasis_witness:
  "body (RigidSolver (Some Box_default) (Vec3f 0 0 0)) = Some Box_default \<and>
   solver_step (RigidSolver (Some Box_default) (Vec3f 0 0 0)) \<noteq> 1 \<and>
   qnorm2 (orientation Box_default) = 1 \<and> M Box_default \<noteq> 0 \<and>
   (\<exists>s' b'. step (1/100) (RigidSolver (Some Box_default) (Vec3f 0 0 0)) = Inr s' \<and>
      body s' = Some b' \<and> orientation b' = Quaternion 1 0 0 0 \<and> P b' = Vec3f 0 0 0 \<and>
      L b' = Vec3f 0 0 0 \<and> X b' = Vec3f 0 0 0)"
proof -
  let ?s = "RigidSolver (Some Box_default) (Vec3f 0 0 0)"
  have h1: "body ?s = Some Box_default" by (simp add: fresh_solver_fields)
  have h2: "solver_step ?s \<noteq> 1" by (simp add: fresh_solver_fields)
  have h6: "qnorm2 (orientation Box_default) = 1" by (simp add: Box_default_fields qnorm2_def)
  have h7: "solver_g ?s = Vec3f 0 0 0" by (simp add: fresh_solver_fields)
  have m: "M Box_default \<noteq> 0" by (simp add: Box_default_fields)
  from zero_force_stasis [OF h1 h2 Box_default_fields(3) Box_default_fields(4)
      Box_default_fields(5) h6 h7, of "1/100"] m
  have "\<exists>s' b'. step (1/100) ?s = Inr s' \<and> body s' = Some b' \<and>
      orientation b' = Quaternion 1 0 0 0 \<and> P b' = Vec3f 0 0 0 \<and>
      L b' = Vec3f 0 0 0 \<and> X b' = Vec3f 0 0 0"
    by (simp add: Box_default_fields)
  with h1 h2 h6 m show ?thesis by blast
qed

subsection \<open>The impulse\<close>

text \<open>
  C1, as the code has it. \<open>computeForceAndTorque\<close> takes the impulse branch when
  \<open>_step == 1\<close>, and \<open>step\<close> increments \<open>_step\<close> after the accumulation: on a solver
  just constructed or bound by \<open>init\<close> (counter 0, body with a sample point) the first
  call of \<open>step\<close> leaves \<open>F = M \<cdot> g\<close>, without the impulse, and it is the second
  call that leaves \<open>F = M \<cdot> g + (0.15, 0.25, 0.03)\<close> and
  \<open>tau = (vdata0[0] - X) \<times> (0.15, 0.25, 0.03)\<close>, with \<open>X\<close> the position the first call
  has left. (\<open>F\<close> and \<open>tau\<close> are not written after the accumulation, so the post-state
  shows them.)
\<close>

theorem impulse_on_second_step:
  assumes "body s0 = Some b0" and "solver_step s0 = 0" and "vdata0 b0 = v0 # vs"
  shows "body (RigidSolver (Some b0) g) = Some b0 \<and> solver_step (RigidSolver (Some b0) g) = 0 \<and>
         body (init (Some b0) sp) = Some b0 \<and> solver_step (init (Some b0) sp) = 0 \<and>
         (\<exists>s1 b1 s2 b2.
            step dt1 s0 = Inr s1 \<and> body s1 = Some b1 \<and>
            F b1 = scalev (M b0) (solver_g s0) \<and>
            step dt2 s1 = Inr s2 \<and> body s2 = Some b2 \<and>
            F b2 = vadd (scalev (M b0) (solver_g s0)) instantForce \<and>
            tau b2 = cross (vsub v0 (X b1)) instantForce)"
proof -
  from assms(2) have "solver_step s0 = 1 \<longrightarrow> vdata0 b0 \<noteq> []" by simp
  from step_post [OF assms(1) this, of dt1] assms(2) obtain s1 b1 where
    r1: "step dt1 s0 = Inr s1" "body s1 = Some b1"
    and c1: "solver_step s1 = 1" "solver_g s1 = solver_g s0"
    and f1: "M b1 = M b0" "vdata0 b1 = vdata0 b0"
      "F b1 = scalev (M b0) (solver_g s0)"
    by auto
  from c1(1) f1(2) assms(3) have "solver_step s1 = 1 \<longrightarrow> vdata0 b1 \<noteq> []" by simp
  from step_post [OF r1(2) this, of dt2] c1 f1 assms(3) obtain s2 b2 where
    r2: "step dt2 s1 = Inr s2" "body s2 = Some b2"
    and f2: "F b2 = vadd (scalev (M b0) (solver_g s0)) instantForce"
      "tau b2 = cross (vsub v0 (X b1)) instantForce"
    by auto
  from r1 f1 r2 f2 show ?thesis by (simp add: fresh_solver_fields)
qed

theorem impulse_on_second_step_witness:
  "body (RigidSolver (Some Box_default) g_default) = Some Box_default \<and>
   solver_step (RigidSolver (Some Box_default) g_default) = 0 \<and>
   (\<exists>s1 b1 s2 b2.
      step (1/100) (RigidSolver (Some Box_default) g_default) = Inr s1 \<and> body s1 = Some b1 \<and>
      F b1 = Vec3f 0 (- (98/10)) 0 \<and>
      step (1/100) s1 = Inr s2 \<and> body s2 = Some b2 \<and>
      F b2 = Vec3f (15/100) (- (955/100)) (3/100) \<and>
      tau b2 = cross (vsub (Vec3f (- (1/2)) (- (1/2)) (- (1/2))) (X b1)) instantForce)"
proof -
  let ?s = "RigidSolver (Some Box_default) g_default"
  have h1: "body ?s = Some Box_default" by (simp add: fresh_solver_fields)
  have h2: "solver_step ?s = 0" by (simp add: fresh_solver_fields)
  from impulse_on_second_step [OF h1 h2 Box_default_fields(7), of _ _ "1/100" "1/100"]
  have "\<exists>s1 b1 s2 b2.
      step (1/100) ?s = Inr s1 \<and> body s1 = Some b1 \<and>
      F b1 = Vec3f 0 (- (98/10)) 0 \<and>
      step (1/100) s1 = Inr s2 \<and> body s2 = Some b2 \<and>
      F b2 = Vec3f (15/100) (- (955/100)) (3/100) \<and>
      tau b2 = cross (vsub (Vec3f (- (1/2)) (- (1/2)) (- (1/2))) (X b1)) instantForce"
    by (simp add: Box_default_fields fresh_solver_fields g_default_def scalev_def vadd_def
          instantForce_def)
  with h1 h2 show ?thesis by blast
qed

text \<open>
  The first call of \<open>step\<close> on a fresh solver bound to the default box: the force is
  gravity alone and the torque stays zero.
\<close>

theorem first_step_without_impulse:
  "map_option F (body_after (step (1/100) (RigidSolver (Some Box_default) g_default))) =
     Some (Vec3f 0 (- (98/10)) 0) \<and>
   map_option F (body_after (step (1/100) (RigidSolver (Some Box_default) g_default))) \<noteq>
     Some (vadd (scalev (M Box_default) g_default) instantForce) \<and>
   map_option tau (body_after (step (1/100) (RigidSolver (Some Box_default) g_default))) =
     Some (Vec3f 0 0 0) \<and>
   map_option tau (body_after (step (1/100) (RigidSolver (Some Box_default) g_default))) \<noteq>
     Some (cross (vsub (vdata0 Box_default ! 0) (X Box_default)) instantForce)"
proof -
  let ?s = "RigidSolver (Some Box_default) g_default"
  have h1: "body ?s = Some Box_default" by (simp add: fresh_solver_fields)
  have h2: "solver_step ?s = 1 \<longrightarrow> vdata0 Box_default \<noteq> []" by (simp add: fresh_solver_fields)
  from step_post [OF h1 h2, of "1/100"] obtain s' b' where
    r: "step (1/100) ?s = Inr s'" "body s' = Some b'"
    and f: "F b' = (if solver_step ?s = 1 then vadd (scalev (M Box_default) (solver_g ?s)) instantForce
                   else scalev (M Box_default) (solver_g ?s))"
      "tau b' = (if solver_step ?s = 1 then cross (vsub (hd (vdata0 Box_default)) (X Box_default)) instantForce
                     else tau Box_default)"
    by blast
  have "F b' = Vec3f 0 (- (98/10)) 0"
    using f(1) by (simp add: fresh_solver_fields Box_default_fields g_default_def scalev_def)
  moreover have "tau b' = Vec3f 0 0 0"
    using f(2) by (simp add: fresh_solver_fields Box_default_fields)
  moreover have "vadd (scalev (M Box_default) g_default) instantForce =
      Vec3f (15/100) (- (955/100)) (3/100)"
    by (simp add: Box_default_fields g_default_def scalev_def vadd_def instantForce_def)
  moreover have "cross (vsub (vdata0 Box_default ! 0) (X Box_default)) instantForce =
     Vec3f (11/100) (- (6/100)) (- (5/100))"
    by (simp add: Box_default_fields cross_def vsub_def instantForce_def)
  ultimately show ?thesis using r by (simp add: body_after_def)
qed

text \<open>
  A call that does not take the impulse branch does not write \<open>tau\<close>: the torque of the
  previous call is integrated again.
\<close>

lemma step_keeps_torque:
  assumes "body s = Some b" and "solver_step s \<noteq> 1"
  shows "\<exists>s' b'. step dt s = Inr s' \<and> body s' = Some b' \<and> tau b' = tau b \<and>
           L b' = vadd (L b) (vscale (tau b) dt)"
proof -
  from assms(2) have "solver_step s = 1 \<longrightarrow> vdata0 b \<noteq> []" by simp
  from step_post [OF assms(1) this, of dt] assms(2) show ?thesis by auto
qed

text \<open>
  C2, evaluated on the code. The default box under the default gravity, three calls
  \<open>step(0.01)\<close>: the third call finds the counter at 2 and does not take the impulse
  branch, yet \<open>tau\<close> still holds the torque of the second call and \<open>L\<close> grows by
  \<open>tau \<cdot> dt\<close> once more. \<open>F\<close> is overwritten on every call, \<open>tau\<close> only on the
  impulse branch.
\<close>

theorem torque_kept_after_impulse:
  "counter_after (steps [1/100, 1/100] (RigidSolver (Some Box_default) g_default)) = Some 2 \<and>
   map_option tau (body_after (steps [1/100, 1/100] (RigidSolver (Some Box_default) g_default))) =
     Some (Vec3f (11000294/100000000) (- (6/100)) (- (500147/10000000))) \<and>
   map_option L (body_after (steps [1/100, 1/100] (RigidSolver (Some Box_default) g_default))) =
     Some (Vec3f (11000294/10000000000) (- (6/10000)) (- (500147/1000000000))) \<and>
   map_option tau (body_after (steps [1/100, 1/100, 1/100] (RigidSolver (Some Box_default) g_default))) =
     Some (Vec3f (11000294/100000000) (- (6/100)) (- (500147/10000000))) \<and>
   map_option L (body_after (steps [1/100, 1/100, 1/100] (RigidSolver (Some Box_default) g_default))) =
     Some (Vec3f (22000588/10000000000) (- (12/10000)) (- (1000294/1000000000))) \<and>
   map_option L (body_after (steps [1/100, 1/100, 1/100] (RigidSolver (Some Box_default) g_default))) \<noteq>
     map_option L (body_after (steps [1/100, 1/100] (RigidSolver (Some Box_default) g_default)))"
proof -
  let ?s = "RigidSolver (Some Box_default) g_default"
  have h1: "body ?s = Some Box_default" by (simp add: fresh_solver_fields)
  have h2: "solver_step ?s = 1 \<longrightarrow> vdata0 Box_default \<noteq> []" by (simp add: fresh_solver_fields)
  from step_post [OF h1 h2, of "1/100"] obtain s1 b1 where
    r1: "step (1/100) ?s = Inr s1" "body s1 = Some b1"
    and c1: "solver_step s1 = 1" "solver_g s1 = g_default"
    and f1: "M b1 = 10" "vdata0 b1 = vdata0 Box_default"
      "F b1 = scalev (M Box_default) g_default" "tau b1 = Vec3f 0 0 0"
      "P b1 = vadd (P Box_default) (vscale (F b1) (1/100))"
      "V b1 = vdiv (P b1) (M Box_default)"
      "X b1 = vadd (X Box_default) (vscale (V b1) (1/100))"
      "L b1 = vadd (L Box_default) (vscale (tau b1) (1/100))"
    by (auto simp add: fresh_solver_fields Box_default_fields)
  have x1: "X b1 = Vec3f 0 (- (98/1000000)) 0"
    using f1 by (simp add: Box_default_fields g_default_def scalev_def vadd_def vscale_def vdiv_def)
  have l1: "L b1 = Vec3f 0 0 0"
    using f1 by (simp add: Box_default_fields vadd_def vscale_def)
  have h3: "solver_step s1 = 1 \<longrightarrow> vdata0 b1 \<noteq> []"
    using f1 by (simp add: Box_default_fields)
  from step_post [OF r1(2) h3, of "1/100"] c1 obtain s2 b2 where
    r2: "step (1/100) s1 = Inr s2" "body s2 = Some b2"
    and c2: "solver_step s2 = 2"
    and f2: "vdata0 b2 = vdata0 b1"
      "tau b2 = cross (vsub (hd (vdata0 b1)) (X b1)) instantForce"
      "L b2 = vadd (L b1) (vscale (tau b2) (1/100))"
    by auto
  have t2: "tau b2 = Vec3f (11000294/100000000) (- (6/100)) (- (500147/10000000))"
    using f2(2) f1(2) x1
    by (simp add: Box_default_fields cross_def vsub_def instantForce_def)
  have l2: "L b2 = Vec3f (11000294/10000000000) (- (6/10000)) (- (500147/1000000000))"
    using f2(3) l1 t2 by (simp add: vadd_def vscale_def)
  have h4: "solver_step s2 = 1 \<longrightarrow> vdata0 b2 \<noteq> []" using c2 by simp
  from step_post [OF r2(2) h4, of "1/100"] c2 obtain s3 b3 where
    r3: "step (1/100) s2 = Inr s3" "body s3 = Some b3"
    and f3: "tau b3 = tau b2" "L b3 = vadd (L b2) (vscale (tau b3) (1/100))"
    by auto
  have l3: "L b3 = Vec3f (22000588/10000000000) (- (12/10000)) (- (1000294/1000000000))"
    using f3 l2 t2 by (simp add: vadd_def vscale_def)
  have e2: "steps [1/100, 1/100] ?s = Inr s2" using r1 r2 by simp
  have e3: "steps [1/100, 1/100, 1/100] ?s = Inr s3" using r1 r2 r3 by simp
  show ?thesis
    unfolding e2 e3 using r2 r3 c2 t2 l2 l3 f3(1)
    by (simp add: body_after_def counter_after_def)
qed

end
